theory Spec2Isabelle
  imports Complex_Main "HOL-Library.Word"
begin

section \<open>Numbers of the filter\<close>

text \<open>
  The filter computes in C++ \<open>float\<close>. The embedding keeps the special values of that
  type, because the code divides by sizes that are zero after clamping and by
  \<open>1 - _track_frequency\<close>: a value is a finite real, plus or minus infinity, or
  not-a-number. Finite arithmetic is exact (no rounding, no overflow of finite
  operands) and zero carries no sign; a division of a finite non-zero value by zero
  gives the infinity of the dividend's sign, \<open>0 / 0\<close> and \<open>0 * \<infinity>\<close> give NaN, and every
  ordered comparison with NaN is false.
\<close>

datatype float = Fin real | PInf | NInf | NaN

fun fneg :: "float \<Rightarrow> float" where
  "fneg (Fin a) = Fin (- a)"
| "fneg PInf = NInf"
| "fneg NInf = PInf"
| "fneg NaN = NaN"

fun fadd :: "float \<Rightarrow> float \<Rightarrow> float" where
  "fadd (Fin a) (Fin b) = Fin (a + b)"
| "fadd NaN _ = NaN"
| "fadd _ NaN = NaN"
| "fadd PInf NInf = NaN"
| "fadd NInf PInf = NaN"
| "fadd PInf _ = PInf"
| "fadd _ PInf = PInf"
| "fadd NInf _ = NInf"
| "fadd _ NInf = NInf"

definition fsub :: "float \<Rightarrow> float \<Rightarrow> float" where
  "fsub a b = fadd a (fneg b)"

fun fmul :: "float \<Rightarrow> float \<Rightarrow> float" where
  "fmul (Fin a) (Fin b) = Fin (a * b)"
| "fmul NaN _ = NaN"
| "fmul _ NaN = NaN"
| "fmul (Fin a) PInf = (if a = 0 then NaN else if 0 < a then PInf else NInf)"
| "fmul (Fin a) NInf = (if a = 0 then NaN else if 0 < a then NInf else PInf)"
| "fmul PInf (Fin b) = (if b = 0 then NaN else if 0 < b then PInf else NInf)"
| "fmul NInf (Fin b) = (if b = 0 then NaN else if 0 < b then NInf else PInf)"
| "fmul PInf PInf = PInf"
| "fmul NInf NInf = PInf"
| "fmul PInf NInf = NInf"
| "fmul NInf PInf = NInf"

fun fdiv :: "float \<Rightarrow> float \<Rightarrow> float" where
  "fdiv (Fin a) (Fin b) =
     (if b = 0 then (if a = 0 then NaN else if 0 < a then PInf else NInf)
      else Fin (a / b))"
| "fdiv NaN _ = NaN"
| "fdiv _ NaN = NaN"
| "fdiv (Fin a) PInf = Fin 0"
| "fdiv (Fin a) NInf = Fin 0"
| "fdiv PInf (Fin b) = (if 0 \<le> b then PInf else NInf)"
| "fdiv NInf (Fin b) = (if 0 \<le> b then NInf else PInf)"
| "fdiv PInf _ = NaN"
| "fdiv NInf _ = NaN"

text \<open>The ordered comparisons \<open><\<close> and \<open><=\<close>; \<open>>\<close> and \<open>>=\<close> swap the operands.\<close>

fun fless :: "float \<Rightarrow> float \<Rightarrow> bool" where
  "fless (Fin a) (Fin b) = (a < b)"
| "fless NaN _ = False"
| "fless _ NaN = False"
| "fless _ NInf = False"
| "fless PInf _ = False"
| "fless NInf _ = True"
| "fless _ PInf = True"

fun fle :: "float \<Rightarrow> float \<Rightarrow> bool" where
  "fle (Fin a) (Fin b) = (a \<le> b)"
| "fle NaN _ = False"
| "fle _ NaN = False"
| "fle NInf _ = True"
| "fle _ PInf = True"
| "fle _ NInf = False"
| "fle PInf _ = False"

definition fgt :: "float \<Rightarrow> float \<Rightarrow> bool" where
  "fgt a b = fless b a"

definition fge :: "float \<Rightarrow> float \<Rightarrow> bool" where
  "fge a b = fle b a"

fun sqrtf :: "float \<Rightarrow> float" where
  "sqrtf (Fin a) = (if a < 0 then NaN else Fin (sqrt a))"
| "sqrtf PInf = PInf"
| "sqrtf NInf = NaN"
| "sqrtf NaN = NaN"

text \<open>\<open>std::clamp(v, lo, hi)\<close> is \<open>(v < lo) ? lo : (hi < v) ? hi : v\<close>.\<close>

definition clamp :: "float \<Rightarrow> float \<Rightarrow> float \<Rightarrow> float" where
  "clamp v lo hi = (if fless v lo then lo else if fless hi v then hi else v)"

text \<open>The conversion \<open>static_cast<float>\<close> of a \<open>uint32_t\<close>.\<close>

definition u32_to_float :: "32 word \<Rightarrow> float" where
  "u32_to_float w = Fin (real (unat w))"

subsection \<open>Vectors\<close>

record vec2 =
  vx :: float
  vy :: float

definition vec2_set :: "float \<Rightarrow> float \<Rightarrow> vec2" where
  "vec2_set a b = \<lparr>vx = a, vy = b\<rparr>"

definition vec2_add :: "vec2 \<Rightarrow> vec2 \<Rightarrow> vec2" where
  "vec2_add a b = \<lparr>vx = fadd (vx a) (vx b), vy = fadd (vy a) (vy b)\<rparr>"

definition vec2_sub :: "vec2 \<Rightarrow> vec2 \<Rightarrow> vec2" where
  "vec2_sub a b = \<lparr>vx = fsub (vx a) (vx b), vy = fsub (vy a) (vy b)\<rparr>"

definition vec2_mulf :: "vec2 \<Rightarrow> float \<Rightarrow> vec2" where
  "vec2_mulf a f = \<lparr>vx = fmul (vx a) f, vy = fmul (vy a) f\<rparr>"

definition vec2_divf :: "vec2 \<Rightarrow> float \<Rightarrow> vec2" where
  "vec2_divf a f = \<lparr>vx = fdiv (vx a) f, vy = fdiv (vy a) f\<rparr>"

definition vec2_dist :: "vec2 \<Rightarrow> vec2 \<Rightarrow> float" where
  "vec2_dist a b =
     (let t = vec2_sub a b in sqrtf (fadd (fmul (vx t) (vx t)) (fmul (vy t) (vy t))))"

section \<open>Data model\<close>

text \<open>
  Modelled from the spec: \<open>ScalarFilter\<close> is \<open>streamfx::util::math::kalman1D<float>\<close>,
  whose class is not part of the source file. Its state is the estimate and the error
  covariance, its parameters the process and measurement noise covariance;
  \<open>construct(processNoise, measurementNoise, initialErrorCovariance, initialEstimate)\<close>
  builds it, \<open>filter(measurement)\<close> runs one predict and update step
  (\<open>P' = P + Q\<close>, \<open>K = P' / (P' + R)\<close>, \<open>x = x + K * (measurement - x)\<close>,
  \<open>P = (1 - K) * P'\<close>) and \<open>get()\<close> reads the estimate.
\<close>

record kalman1D =
  processNoiseCovariance :: float
  measurementNoiseCovariance :: float
  errorCovariance :: float
  estimate :: float

text \<open>Modelled from the spec: the constructor of \<open>ScalarFilter\<close>.\<close>

definition construct :: "float \<Rightarrow> float \<Rightarrow> float \<Rightarrow> float \<Rightarrow> kalman1D" where
  "construct pnc mnc eec v =
     \<lparr>processNoiseCovariance = pnc, measurementNoiseCovariance = mnc,
      errorCovariance = eec, estimate = v\<rparr>"

text \<open>Modelled from the spec: \<open>filter(measurement)\<close>, the scalar Kalman recursion.\<close>

definition kalman_filter :: "kalman1D \<Rightarrow> float \<Rightarrow> kalman1D" where
  "kalman_filter k measurement =
     (let p' = fadd (errorCovariance k) (processNoiseCovariance k);
          gain = fdiv p' (fadd p' (measurementNoiseCovariance k));
          xv = fadd (estimate k) (fmul gain (fsub measurement (estimate k)))
      in k\<lparr>estimate := xv, errorCovariance := fmul (fsub (Fin 1) gain) p'\<rparr>)"

text \<open>Modelled from the spec: \<open>get()\<close>, a pure read of the estimate.\<close>

definition kalman_get :: "kalman1D \<Rightarrow> float" where
  "kalman_get k = estimate k"

definition ST_KALMAN_EEC :: float where
  "ST_KALMAN_EEC = Fin 1"

text \<open>
  A tracked element \<open>track_el\<close> and its smoothing companion \<open>pred_el\<close>. The code holds
  both through \<open>std::shared_ptr\<close>; the identity of a tracked element is its address
  \<open>addr\<close>, which is also the key of the companion in \<open>_predicted_elements\<close>.
\<close>

type_synonym addr = nat

record track_el =
  pos :: vec2
  size_el :: vec2
  vel :: vec2
  age :: float
  confidence :: float

record pred_el =
  filter_pos_x :: kalman1D
  filter_pos_y :: kalman1D
  filter_size_x :: kalman1D
  filter_size_y :: kalman1D
  mp_pos :: vec2
  offset_pos :: vec2
  pad_size :: vec2
  aspected_size :: vec2

datatype tracking_mode = SOLO | GROUP

text \<open>
  A value of the enumeration \<open>tracking_provider\<close>; \<open>update\<close> casts an integer of the
  settings to it, so a value without an enumerator can occur.
\<close>

datatype tracking_provider = INVALID | AUTOMATIC | NVIDIA_FACEDETECTION | UNLISTED int

datatype log_entry = LOG_INFO string | LOG_ERROR string

text \<open>
  \<open>_tracked_elements\<close> is a list of shared pointers: each entry is the address with the
  object it points to. \<open>_predicted_elements\<close> is used through \<open>find\<close>, \<open>erase\<close>,
  \<open>insert_or_assign\<close>, \<open>size\<close>, iteration and \<open>rbegin\<close>, the interface of \<open>std::map\<close>,
  which keeps its entries in ascending order of the key: an association list sorted by
  address.
\<close>

type_synonym tracked_list = "(addr \<times> track_el) list"
type_synonym predicted_map = "(addr \<times> pred_el) list"

definition map_find :: "addr \<Rightarrow> predicted_map \<Rightarrow> pred_el option" where
  "map_find k m = map_of m k"

definition map_erase :: "addr \<Rightarrow> predicted_map \<Rightarrow> predicted_map" where
  "map_erase k m = filter (\<lambda>kv. fst kv \<noteq> k) m"

fun map_insert_or_assign :: "addr \<Rightarrow> pred_el \<Rightarrow> predicted_map \<Rightarrow> predicted_map" where
  "map_insert_or_assign k v [] = [(k, v)]"
| "map_insert_or_assign k v (kv # m) =
     (if k < fst kv then (k, v) # kv # m
      else if k = fst kv then (k, v) # m
      else kv # map_insert_or_assign k v m)"

definition map_keys :: "predicted_map \<Rightarrow> addr set" where
  "map_keys m = fst ` set m"

definition addrs :: "tracked_list \<Rightarrow> addr set" where
  "addrs els = fst ` set els"

record autoframing_instance =
  size_wh :: "32 word \<times> 32 word"
  provider :: tracking_provider
  provider_ready :: bool
  nvidia_fx :: bool
  track_mode :: tracking_mode
  track_frequency :: float
  motion_smoothing :: float
  motion_smoothing_kalman_pnc :: float
  motion_smoothing_kalman_mnc :: float
  motion_prediction :: float
  frame_stability :: float
  frame_stability_kalman :: float
  frame_padding_prc :: "bool \<times> bool"
  frame_padding :: vec2
  frame_offset_prc :: "bool \<times> bool"
  frame_offset :: vec2
  frame_aspect_ratio :: float
  track_frequency_counter :: float
  tracked_elements :: tracked_list
  predicted_elements :: predicted_map
  frame_pos_x :: kalman1D
  frame_pos_y :: kalman1D
  frame_size_x :: kalman1D
  frame_size_y :: kalman1D
  frame_pos :: vec2
  frame_size :: vec2
  debug :: bool
  log :: "log_entry list"

section \<open>The aspect ratio correction of the final frame\<close>

text \<open>
  The last block of \<open>tracking_tick\<close>: the candidate \<open>_frame_pos\<close>, \<open>_frame_size\<close> is
  inflated to the target ratio, its four edges are clamped to the source size \<open>_size\<close>,
  and the ratio is applied again to the clamped box. The target is the configured
  \<open>_frame_aspect_ratio\<close> (\<open>far\<close>) when that is positive, else the ratio of the source.
\<close>

definition aspect_target :: "float \<Rightarrow> 32 word \<times> 32 word \<Rightarrow> float" where
  "aspect_target far sz =
     (if fgt far (Fin 0) then far
      else fdiv (u32_to_float (fst sz)) (u32_to_float (snd sz)))"

text \<open>Step 1: adjust the aspect ratio so that all elements end up contained.\<close>

definition aspect_inflate :: "float \<Rightarrow> vec2 \<Rightarrow> vec2" where
  "aspect_inflate aspect fsize =
     (let frame_aspect = fdiv (vx fsize) (vy fsize) in
      if fless aspect frame_aspect
      then fsize\<lparr>vy := fdiv (vx fsize) aspect\<rparr>
      else fsize\<lparr>vx := fmul (vy fsize) aspect\<rparr>)"

text \<open>Step 2: clamp the four edges to the source and rebuild centre and size from them.\<close>

definition clamp_to_frame :: "32 word \<times> 32 word \<Rightarrow> vec2 \<times> vec2 \<Rightarrow> vec2 \<times> vec2" where
  "clamp_to_frame sz fr =
     (let fpos = fst fr; fsize = snd fr;
          rect_x = clamp (fsub (vx fpos) (fdiv (vx fsize) (Fin 2)))
                     (Fin 0) (u32_to_float (fst sz));
          rect_z = clamp (fadd (vx fpos) (fdiv (vx fsize) (Fin 2)))
                     (Fin 0) (u32_to_float (fst sz));
          rect_y = clamp (fsub (vy fpos) (fdiv (vy fsize) (Fin 2)))
                     (Fin 0) (u32_to_float (snd sz));
          rect_w = clamp (fadd (vy fpos) (fdiv (vy fsize) (Fin 2)))
                     (Fin 0) (u32_to_float (snd sz))
      in (\<lparr>vx = fdiv (fadd rect_x rect_z) (Fin 2), vy = fdiv (fadd rect_y rect_w) (Fin 2)\<rparr>,
          \<lparr>vx = fsub rect_z rect_x, vy = fsub rect_w rect_y\<rparr>))"

text \<open>Step 3: adjust the clamped box to the expected output aspect ratio.\<close>

definition aspect_shrink :: "float \<Rightarrow> vec2 \<Rightarrow> vec2" where
  "aspect_shrink aspect fsize =
     (let frame_aspect = fdiv (vx fsize) (vy fsize) in
      if fless aspect frame_aspect
      then fsize\<lparr>vx := fmul (vy fsize) aspect\<rparr>
      else fsize\<lparr>vy := fdiv (vx fsize) aspect\<rparr>)"

definition aspect_ratio_correction ::
  "float \<Rightarrow> 32 word \<times> 32 word \<Rightarrow> vec2 \<times> vec2 \<Rightarrow> vec2 \<times> vec2" where
  "aspect_ratio_correction far sz fr =
     (let aspect = aspect_target far sz;
          inflated = (fst fr, aspect_inflate aspect (snd fr));
          clamped = clamp_to_frame sz inflated
      in (fst clamped, aspect_shrink aspect (snd clamped)))"


section \<open>The tick: ageing, prediction, final frame\<close>

text \<open>
  The first loop of \<open>tracking_tick\<close> walks \<open>_tracked_elements\<close> with an iterator, here the
  index \<open>i\<close>. The age of the element under the iterator grows by the tick duration; when
  it has reached the threshold, the companion is erased from the map and the element from
  the list, and the iterator then stands on the element that followed (at the head the code
  resets it to \<open>begin()\<close>, elsewhere it advances a copy before erasing).
\<close>

definition erase_at :: "nat \<Rightarrow> 'a list \<Rightarrow> 'a list" where
  "erase_at i xs = take i xs @ drop (Suc i) xs"

function age_loop ::
  "float \<Rightarrow> float \<Rightarrow> nat \<Rightarrow> tracked_list \<Rightarrow> predicted_map \<Rightarrow> tracked_list \<times> predicted_map" where
  "age_loop threshold seconds i els preds =
     (if i < length els then
        (let a = fst (els ! i);
             el = (snd (els ! i))\<lparr>age := fadd (age (snd (els ! i))) seconds\<rparr>;
             els = els[i := (a, el)]
         in if fge (age el) threshold then
              (if i = 0 then age_loop threshold seconds 0 (erase_at i els) (map_erase a preds)
               else age_loop threshold seconds i (erase_at i els) (map_erase a preds))
            else age_loop threshold seconds (Suc i) els preds)
      else (els, preds))"
  by pat_completeness auto
termination
  by (relation "measure (\<lambda>(threshold, seconds, i, els, preds). length els - i)")
     (auto simp: erase_at_def)

declare age_loop.simps [simp del]

text \<open>The aged copy of an entry, and the test that removes it.\<close>

definition grow_age :: "float \<Rightarrow> addr \<times> track_el \<Rightarrow> addr \<times> track_el" where
  "grow_age seconds e = (fst e, (snd e)\<lparr>age := fadd (age (snd e)) seconds\<rparr>)"

definition expired :: "float \<Rightarrow> addr \<times> track_el \<Rightarrow> bool" where
  "expired threshold e = fge (age (snd e)) threshold"

definition age_threshold :: "float \<Rightarrow> float" where
  "age_threshold freq = fmul (Fin (1 / 2)) (fdiv (Fin 1) (fsub (Fin 1) freq))"

text \<open>
  The second loop visits every tracked element. \<open>new_pred\<close> is the companion made when
  \<open>find\<close> misses (its vectors are value-initialised, its filters seeded from the element);
  \<open>update_pred\<close> is the rest of the loop body.
\<close>

definition vec2_zero :: vec2 where
  "vec2_zero = \<lparr>vx = Fin 0, vy = Fin 0\<rparr>"

definition new_pred :: "autoframing_instance \<Rightarrow> track_el \<Rightarrow> pred_el" where
  "new_pred s trck =
     \<lparr>filter_pos_x = construct (motion_smoothing_kalman_pnc s) (motion_smoothing_kalman_mnc s)
                       ST_KALMAN_EEC (vx (pos trck)),
      filter_pos_y = construct (motion_smoothing_kalman_pnc s) (motion_smoothing_kalman_mnc s)
                       ST_KALMAN_EEC (vy (pos trck)),
      filter_size_x = construct (motion_smoothing_kalman_pnc s) (motion_smoothing_kalman_mnc s)
                        ST_KALMAN_EEC (vx (size_el trck)),
      filter_size_y = construct (motion_smoothing_kalman_pnc s) (motion_smoothing_kalman_mnc s)
                        ST_KALMAN_EEC (vy (size_el trck)),
      mp_pos = vec2_zero, offset_pos = vec2_zero, pad_size = vec2_zero,
      aspected_size = vec2_zero\<rparr>"

definition motion_predicted :: "autoframing_instance \<Rightarrow> float \<Rightarrow> track_el \<Rightarrow> pred_el \<Rightarrow> vec2" where
  "motion_predicted s seconds trck pred =
     (let v = vec2_mulf (vec2_mulf (vel trck) (motion_prediction s)) seconds;
          p = (if fgt (age trck) seconds then mp_pos pred else pos trck)
      in vec2_add p v)"

definition aspect_adjust :: "float \<Rightarrow> vec2 \<Rightarrow> vec2" where
  "aspect_adjust far padded =
     (if fgt far (Fin 0) then
        (if fge (fdiv (vx padded) (vy padded)) far
         then padded\<lparr>vy := fdiv (vx padded) far\<rparr>
         else padded\<lparr>vx := fmul (vy padded) far\<rparr>)
      else padded)"

definition update_pred :: "autoframing_instance \<Rightarrow> float \<Rightarrow> track_el \<Rightarrow> pred_el \<Rightarrow> pred_el" where
  "update_pred s seconds trck pred =
     (let mp = motion_predicted s seconds trck pred;
          fpx = kalman_filter (filter_pos_x pred) (vx mp);
          fpy = kalman_filter (filter_pos_y pred) (vy mp);
          fsx = kalman_filter (filter_size_x pred) (vx (size_el trck));
          fsy = kalman_filter (filter_size_y pred) (vy (size_el trck));
          ox = (if fst (frame_offset_prc s)
                then fadd (kalman_get fpx) (fmul (kalman_get fsx) (fneg (vx (frame_offset s))))
                else fadd (kalman_get fpx) (vx (frame_offset s)));
          oy = (if snd (frame_offset_prc s)
                then fadd (kalman_get fpy) (fmul (kalman_get fsy) (fneg (vy (frame_offset s))))
                else fadd (kalman_get fpy) (vy (frame_offset s)));
          px = (if fst (frame_padding_prc s)
                then fadd (vx (size_el trck))
                       (fmul (fmul (kalman_get fsx) (fneg (vx (frame_padding s)))) (Fin 2))
                else fadd (vx (size_el trck)) (fmul (vx (frame_padding s)) (Fin 2)));
          py = (if snd (frame_padding_prc s)
                then fadd (vy (size_el trck))
                       (fmul (fmul (kalman_get fsy) (fneg (vy (frame_padding s)))) (Fin 2))
                else fadd (vy (size_el trck)) (fmul (vy (frame_padding s)) (Fin 2)));
          padded = \<lparr>vx = px, vy = py\<rparr>
      in \<lparr>filter_pos_x = fpx, filter_pos_y = fpy, filter_size_x = fsx, filter_size_y = fsy,
          mp_pos = mp, offset_pos = \<lparr>vx = ox, vy = oy\<rparr>, pad_size = padded,
          aspected_size = aspect_adjust (frame_aspect_ratio s) padded\<rparr>)"

fun update_predicted ::
  "autoframing_instance \<Rightarrow> float \<Rightarrow> tracked_list \<Rightarrow> predicted_map \<Rightarrow> predicted_map" where
  "update_predicted s seconds [] preds = preds"
| "update_predicted s seconds (e # els) preds =
     (let pred = (case map_find (fst e) preds of
                    None \<Rightarrow> new_pred s (snd e)
                  | Some p \<Rightarrow> p)
      in update_predicted s seconds els
           (map_insert_or_assign (fst e) (update_pred s seconds (snd e) pred) preds))"

text \<open>
  The block that finds the final frame. In \<open>SOLO\<close> mode it reads the entry at \<open>rbegin()\<close>,
  the last of the map; otherwise it folds the boxes of all entries into \<open>min\<close> and \<open>max\<close>,
  which start at \<open>FLT_MAX\<close> and \<open>0\<close>.
\<close>

definition FLT_MAX :: float where
  "FLT_MAX = Fin ((2 - 1 / 2 ^ 23) * 2 ^ 127)"

definition union_step :: "vec2 \<times> vec2 \<Rightarrow> addr \<times> pred_el \<Rightarrow> vec2 \<times> vec2" where
  "union_step mm kv =
     (let half = vec2_mulf (aspected_size (snd kv)) (Fin (1 / 2));
          low = vec2_sub (offset_pos (snd kv)) half;
          high = vec2_add (offset_pos (snd kv)) half;
          mn = fst mm; mx = snd mm;
          mn = (if fless (vx low) (vx mn) then mn\<lparr>vx := vx low\<rparr> else mn);
          mn = (if fless (vy low) (vy mn) then mn\<lparr>vy := vy low\<rparr> else mn);
          mx = (if fgt (vx high) (vx mx) then mx\<lparr>vx := vx high\<rparr> else mx);
          mx = (if fgt (vy high) (vy mx) then mx\<lparr>vy := vy high\<rparr> else mx)
      in (mn, mx))"

definition find_final_frame :: "autoframing_instance \<Rightarrow> autoframing_instance" where
  "find_final_frame s =
     (if length (predicted_elements s) > 0 then
        (if track_mode s = SOLO then
           (let kv = last (predicted_elements s);
                fx = kalman_filter (frame_pos_x s) (vx (offset_pos (snd kv)));
                fy = kalman_filter (frame_pos_y s) (vy (offset_pos (snd kv)))
            in s\<lparr>frame_pos_x := fx, frame_pos_y := fy,
                 frame_pos := vec2_set (kalman_get fx) (kalman_get fy),
                 frame_size := aspected_size (snd kv)\<rparr>)
         else
           (let mm = foldl union_step (vec2_set FLT_MAX FLT_MAX, vec2_set (Fin 0) (Fin 0))
                       (predicted_elements s);
                center = vec2_divf (vec2_add (fst mm) (snd mm)) (Fin 2);
                sz = vec2_sub (snd mm) (fst mm);
                fx = kalman_filter (frame_pos_x s) (vx center);
                fy = kalman_filter (frame_pos_y s) (vy center);
                gx = kalman_filter (frame_size_x s) (vx sz);
                gy = kalman_filter (frame_size_y s) (vy sz)
            in s\<lparr>frame_pos_x := fx, frame_pos_y := fy, frame_size_x := gx, frame_size_y := gy,
                 frame_pos := vec2_set (kalman_get fx) (kalman_get fy),
                 frame_size := vec2_set (kalman_get gx) (kalman_get gy)\<rparr>))
      else
        (let fx = kalman_filter (frame_pos_x s) (fdiv (u32_to_float (fst (size_wh s))) (Fin 2));
             fy = kalman_filter (frame_pos_y s) (fdiv (u32_to_float (snd (size_wh s))) (Fin 2));
             gx = kalman_filter (frame_size_x s) (u32_to_float (fst (size_wh s)));
             gy = kalman_filter (frame_size_y s) (u32_to_float (snd (size_wh s)))
         in s\<lparr>frame_pos_x := fx, frame_pos_y := fy, frame_size_x := gx, frame_size_y := gy,
              frame_pos := vec2_set (kalman_get fx) (kalman_get fy),
              frame_size := vec2_set (kalman_get gx) (kalman_get gy)\<rparr>))"

text \<open>The two loops over the tracked elements, then the frame, then the counter.\<close>

definition update_elements :: "float \<Rightarrow> autoframing_instance \<Rightarrow> autoframing_instance" where
  "update_elements seconds s =
     (let aged = age_loop (age_threshold (track_frequency s)) seconds 0
                   (tracked_elements s) (predicted_elements s);
          preds = update_predicted s seconds (fst aged) (snd aged)
      in s\<lparr>tracked_elements := fst aged, predicted_elements := preds\<rparr>)"

definition tracking_tick :: "float \<Rightarrow> autoframing_instance \<Rightarrow> autoframing_instance" where
  "tracking_tick seconds s =
     (let s = update_elements seconds s;
          s = find_final_frame s;
          fr = aspect_ratio_correction (frame_aspect_ratio s) (size_wh s) (frame_pos s, frame_size s)
      in s\<lparr>frame_pos := fst fr, frame_size := snd fr,
           track_frequency_counter := fadd (track_frequency_counter s) seconds\<rparr>)"

section \<open>The detection pass\<close>

text \<open>
  \<open>nvar_facedetection_process\<close> receives from the backend a list of rectangles
  \<open>(x, y, z, w)\<close> with a confidence each. Every detection that is kept is a fresh
  \<open>track_el\<close> made by \<open>std::make_shared\<close>; \<open>alloc idx\<close> is the address the allocator
  returns in iteration \<open>idx\<close> of the collecting loop.
\<close>

record vec4 =
  v4x :: float
  v4y :: float
  v4z :: float
  v4w :: float

definition make_match :: "vec4 \<Rightarrow> float \<Rightarrow> track_el" where
  "make_match rect conf =
     \<lparr>pos = \<lparr>vx = fadd (v4x rect) (fdiv (v4z rect) (Fin 2)),
              vy = fadd (v4y rect) (fdiv (v4w rect) (Fin 2))\<rparr>,
      size_el = vec2_set (v4z rect) (v4w rect),
      vel = vec2_set (Fin 0) (Fin 0),
      age = Fin 0,
      confidence = (if fgt conf (Fin 1) then Fin 1 else conf)\<rparr>"

fun collect_boxes :: "(nat \<Rightarrow> addr) \<Rightarrow> nat \<Rightarrow> (vec4 \<times> float) list \<Rightarrow> tracked_list" where
  "collect_boxes alloc idx [] = []"
| "collect_boxes alloc idx (d # ds) =
     (if fless (snd d) (Fin (1 / 2)) then collect_boxes alloc (Suc idx) ds
      else (alloc idx, make_match (fst d) (snd d)) # collect_boxes alloc (Suc idx) ds)"

text \<open>
  The search of one tracked element through the boxes: \<open>match_iter\<close> is the index of the
  best box so far (\<open>None\<close> for \<open>boxes.end()\<close>), \<open>match_dst\<close> its distance, and \<open>i\<close> the
  position of the iterator.
\<close>

fun match_scan ::
  "vec2 \<Rightarrow> float \<Rightarrow> tracked_list \<Rightarrow> nat \<Rightarrow> nat option \<times> float \<Rightarrow> nat option \<times> float" where
  "match_scan p max_dst [] i m = m"
| "match_scan p max_dst (box # boxes) i m =
     (let dst = vec2_dist (pos (snd box)) p in
      if fless dst (snd m) \<and> fless dst max_dst
      then match_scan p max_dst boxes (Suc i) (Some i, dst)
      else match_scan p max_dst boxes (Suc i) m)"

definition match_track ::
  "float \<Rightarrow> addr \<times> track_el \<Rightarrow> tracked_list \<Rightarrow> (addr \<times> track_el) \<times> tracked_list" where
  "match_track max_dst e boxes =
     (case fst (match_scan (pos (snd e)) max_dst boxes 0 (None, max_dst)) of
        None \<Rightarrow> (e, boxes)
      | Some i \<Rightarrow>
          (let m = snd (boxes ! i);
               v = vec2_sub (pos (snd e)) (pos m)
           in ((fst e, (snd e)\<lparr>pos := pos m, size_el := size_el m, vel := v,
                                 age := Fin 0, confidence := confidence m\<rparr>),
               erase_at i boxes)))"

fun merge_tracks :: "float \<Rightarrow> tracked_list \<Rightarrow> tracked_list \<Rightarrow> tracked_list \<times> tracked_list" where
  "merge_tracks max_dst [] boxes = ([], boxes)"
| "merge_tracks max_dst (e # els) boxes =
     (let r = match_track max_dst e boxes;
          rest = merge_tracks max_dst els (snd r)
      in (fst r # fst rest, snd rest))"

definition max_distance :: "32 word \<times> 32 word \<Rightarrow> float \<Rightarrow> float" where
  "max_distance sz freq =
     fmul (fmul (sqrtf (fadd (u32_to_float (fst sz * fst sz)) (u32_to_float (snd sz * snd sz))))
             (Fin (667 / 1000)))
          (fdiv (Fin 1) (fsub (Fin 1) freq))"

definition nvar_facedetection_process ::
  "(nat \<Rightarrow> addr) \<Rightarrow> (vec4 \<times> float) list \<Rightarrow> autoframing_instance \<Rightarrow> autoframing_instance" where
  "nvar_facedetection_process alloc dets s =
     (if \<not> nvidia_fx s then s
      else if length dets > 0 then
        (let max_dst = max_distance (size_wh s) (track_frequency s);
             boxes = collect_boxes alloc 0 dets;
             r = merge_tracks max_dst (tracked_elements s) boxes
         in s\<lparr>tracked_elements := fst r @ snd r\<rparr>)
      else s)"

section \<open>Settings\<close>

text \<open>
  The settings object as \<open>update\<close> reads it: a text is absent (\<open>nullptr\<close>) or a string.
  Two functions that \<open>update\<close> calls belong to libraries outside the source file and are
  parameters: \<open>scan text\<close> is \<open>Some v\<close> when \<open>sscanf(text, "%f", &v)\<close> returns 1 and \<open>None\<close>
  otherwise, and \<open>lerp\<close> is \<open>streamfx::util::math::lerp<float>\<close>. \<open>strchr(text, c)\<close> finds
  a character exactly when it occurs in the text.
\<close>

record obs_data =
  Tracking_Mode :: tracking_mode
  Tracking_Frequency :: "string option"
  Motion_Prediction :: float
  Motion_Smoothing :: float
  Framing_Stability :: float
  Framing_Padding_X :: "string option"
  Framing_Padding_Y :: "string option"
  Framing_Offset_X :: "string option"
  Framing_Offset_Y :: "string option"
  Framing_AspectRatio :: "string option"
  Debug :: bool

record externals =
  scan :: "string \<Rightarrow> float option"
  lerp :: "float \<Rightarrow> float \<Rightarrow> float \<Rightarrow> float"

text \<open>The frequency block: the new \<open>_track_frequency\<close>, given the old one.\<close>

definition read_frequency :: "externals \<Rightarrow> string option \<Rightarrow> float \<Rightarrow> float" where
  "read_frequency ext text old =
     (case text of
        None \<Rightarrow> old
      | Some t \<Rightarrow>
          (case scan ext t of
             Some v \<Rightarrow> (if CHR ''s'' \<notin> set t then fdiv (Fin 1) v else v)
           | None \<Rightarrow> Fin 0))"

text \<open>
  One of the four padding and offset blocks: the percent flag and the value, given the
  old pair.
\<close>

definition read_size :: "externals \<Rightarrow> string option \<Rightarrow> bool \<times> float \<Rightarrow> bool \<times> float" where
  "read_size ext text old =
     (case text of
        None \<Rightarrow> old
      | Some t \<Rightarrow>
          (case scan ext t of
             Some v \<Rightarrow> (if CHR ''%'' \<in> set t then (True, fneg (fdiv v (Fin 100))) else (False, v))
           | None \<Rightarrow> (fst old, Fin 0)))"

definition read_aspect_ratio :: "externals \<Rightarrow> string option \<Rightarrow> 32 word \<times> 32 word \<Rightarrow> float" where
  "read_aspect_ratio ext text sz =
     (case text of
        None \<Rightarrow> fdiv (u32_to_float (fst sz)) (u32_to_float (snd sz))
      | Some t \<Rightarrow>
          (if CHR '':'' \<in> set t then
             (case (scan ext t, scan ext (tl (dropWhile (\<lambda>c. c \<noteq> CHR '':'') t))) of
                (Some l, Some r) \<Rightarrow> fdiv l r
              | _ \<Rightarrow> Fin 0)
           else
             (case scan ext t of Some v \<Rightarrow> v | None \<Rightarrow> Fin 0)))"

definition regenerate :: "float \<Rightarrow> float \<Rightarrow> kalman1D \<Rightarrow> kalman1D" where
  "regenerate pnc mnc k = construct pnc mnc ST_KALMAN_EEC (kalman_get k)"

definition regenerate_pred :: "float \<Rightarrow> float \<Rightarrow> addr \<times> pred_el \<Rightarrow> addr \<times> pred_el" where
  "regenerate_pred pnc mnc kv =
     (fst kv, (snd kv)\<lparr>filter_pos_x := regenerate pnc mnc (filter_pos_x (snd kv)),
                        filter_pos_y := regenerate pnc mnc (filter_pos_y (snd kv)),
                        filter_size_x := regenerate pnc mnc (filter_size_x (snd kv)),
                        filter_size_y := regenerate pnc mnc (filter_size_y (snd kv))\<rparr>)"

text \<open>
  \<open>update\<close> up to the aspect ratio. Its last block compares the provider of the settings
  with \<open>_provider\<close> and hands a switch to the thread pool; that block reads and writes
  none of the fields set here, and the task it queues is \<open>task_switch_provider\<close> below.
\<close>

definition update :: "externals \<Rightarrow> obs_data \<Rightarrow> autoframing_instance \<Rightarrow> autoframing_instance" where
  "update ext data s =
     (let ms = fdiv (Motion_Smoothing data) (Fin 100);
          pnc = lerp ext (Fin 1) (Fin (1 / 100000)) ms;
          mnc = lerp ext (Fin (1 / 1000)) (Fin 1000) ms;
          fs = fdiv (Framing_Stability data) (Fin 100);
          fsk = lerp ext (Fin 1) (Fin (1 / 100000)) fs;
          padx = read_size ext (Framing_Padding_X data)
                   (fst (frame_padding_prc s), vx (frame_padding s));
          pady = read_size ext (Framing_Padding_Y data)
                   (snd (frame_padding_prc s), vy (frame_padding s));
          offx = read_size ext (Framing_Offset_X data)
                   (fst (frame_offset_prc s), vx (frame_offset s));
          offy = read_size ext (Framing_Offset_Y data)
                   (snd (frame_offset_prc s), vy (frame_offset s))
      in s\<lparr>track_mode := Tracking_Mode data,
           track_frequency := read_frequency ext (Tracking_Frequency data) (track_frequency s),
           track_frequency_counter := Fin 0,
           motion_prediction := fdiv (Motion_Prediction data) (Fin 100),
           motion_smoothing := ms,
           motion_smoothing_kalman_pnc := pnc,
           motion_smoothing_kalman_mnc := mnc,
           predicted_elements := map (regenerate_pred pnc mnc) (predicted_elements s),
           frame_stability := fs,
           frame_stability_kalman := fsk,
           frame_pos_x := regenerate fsk (Fin 1) (frame_pos_x s),
           frame_pos_y := regenerate fsk (Fin 1) (frame_pos_y s),
           frame_size_x := regenerate fsk (Fin 1) (frame_size_x s),
           frame_size_y := regenerate fsk (Fin 1) (frame_size_y s),
           frame_padding_prc := (fst padx, fst pady),
           frame_padding := \<lparr>vx = snd padx, vy = snd pady\<rparr>,
           frame_offset_prc := (fst offx, fst offy),
           frame_offset := \<lparr>vx = snd offx, vy = snd offy\<rparr>,
           frame_aspect_ratio := read_aspect_ratio ext (Framing_AspectRatio data) (size_wh s),
           debug := Debug data\<rparr>)"

text \<open>
  A scanner for the concrete instances: the prefix of decimal digits of a text as a number, which
  is what \<open>sscanf\<close> with \<open>%f\<close> reads from a text that starts with an unsigned integer
  followed by a character other than a digit, a point or an exponent mark; and a linear
  interpolation to stand for \<open>lerp\<close>.
\<close>

definition digit_val :: "char \<Rightarrow> nat" where
  "digit_val c = of_char c - 48"

definition is_digit :: "char \<Rightarrow> bool" where
  "is_digit c = (48 \<le> (of_char c :: nat) \<and> (of_char c :: nat) \<le> 57)"

definition scan_digits :: "string \<Rightarrow> float option" where
  "scan_digits t =
     (let ds = takeWhile is_digit t in
      if ds = [] then None
      else Some (Fin (real (foldl (\<lambda>n c. 10 * n + digit_val c) 0 ds))))"

definition lerp_linear :: "float \<Rightarrow> float \<Rightarrow> float \<Rightarrow> float" where
  "lerp_linear a b v = fadd (fmul a (fsub (Fin 1) v)) (fmul b v)"

definition demo_externals :: externals where
  "demo_externals = \<lparr>scan = scan_digits, lerp = lerp_linear\<rparr>"

definition demo_data :: obs_data where
  "demo_data =
     \<lparr>Tracking_Mode = SOLO, Tracking_Frequency = Some ''20 Hz'',
      Motion_Prediction = Fin 200, Motion_Smoothing = Fin 50, Framing_Stability = Fin 10,
      Framing_Padding_X = Some ''10'', Framing_Padding_Y = Some ''10'',
      Framing_Offset_X = Some ''0'', Framing_Offset_Y = Some ''0'',
      Framing_AspectRatio = Some [], Debug = False\<rparr>"

section \<open>Switching the provider\<close>

text \<open>
  \<open>task_switch_provider\<close> runs the unload of the previous backend and the load of the new
  one inside \<open>try\<close>, with the handler \<open>catch (std::exception const&)\<close>. What a call into
  the backend does is a parameter: it returns, or it throws an exception of a class
  derived from \<open>std::exception\<close>, given by its \<open>what()\<close> text. \<open>cstring\<close> throws for a value without an enumerator; the names it
  returns for the others come from the translation tables and stand here as fixed texts.
\<close>

datatype outcome = Returns | Throws string

record backend =
  unload_outcome :: outcome
  load_outcome :: outcome
  is_temporal :: bool


definition nvar_facedetection_update :: "backend \<Rightarrow> autoframing_instance \<Rightarrow> autoframing_instance" where
  "nvar_facedetection_update b s =
     (if \<not> nvidia_fx s then s
      else (case track_mode s of
              SOLO \<Rightarrow> (if \<not> is_temporal b then s\<lparr>track_mode := GROUP\<rparr> else s)
            | GROUP \<Rightarrow> s))"






section \<open>Concrete instances\<close>

text \<open>
  An instance with the default settings (20 Hz, motion prediction 200 percent, padding and
  offset in pixels), a source of 1920 by 1080 and no tracked element, and two tracked
  elements; the theorems below are instantiated on them.
\<close>

definition unit_filter :: "float \<Rightarrow> kalman1D" where
  "unit_filter v = construct (Fin 1) (Fin 1) ST_KALMAN_EEC v"

definition demo_instance :: autoframing_instance where
  "demo_instance =
     \<lparr>size_wh = (1920, 1080), provider = INVALID, provider_ready = False, nvidia_fx = False,
      track_mode = SOLO, track_frequency = Fin (1 / 20),
      motion_smoothing = Fin 0, motion_smoothing_kalman_pnc = Fin 1,
      motion_smoothing_kalman_mnc = Fin 1, motion_prediction = Fin 2,
      frame_stability = Fin 0, frame_stability_kalman = Fin 1,
      frame_padding_prc = (False, False), frame_padding = \<lparr>vx = Fin 10, vy = Fin 10\<rparr>,
      frame_offset_prc = (False, False), frame_offset = \<lparr>vx = Fin 0, vy = Fin 0\<rparr>,
      frame_aspect_ratio = Fin 0, track_frequency_counter = Fin 0,
      tracked_elements = [], predicted_elements = [],
      frame_pos_x = unit_filter (Fin 1), frame_pos_y = unit_filter (Fin 1),
      frame_size_x = unit_filter (Fin 1), frame_size_y = unit_filter (Fin 1),
      frame_pos = \<lparr>vx = Fin 0, vy = Fin 0\<rparr>, frame_size = \<lparr>vx = Fin 1, vy = Fin 1\<rparr>,
      debug = False, log = []\<rparr>"

definition track_a :: track_el where
  "track_a = \<lparr>pos = \<lparr>vx = Fin 100, vy = Fin 100\<rparr>, size_el = \<lparr>vx = Fin 40, vy = Fin 40\<rparr>,
              vel = \<lparr>vx = Fin 3, vy = Fin 0\<rparr>, age = Fin 0, confidence = Fin (9 / 10)\<rparr>"


text \<open>
  The instance with the ratio 1:1, a padding of -100 pixels, an offset of -300 pixels in
  y, and one tracked element of 100 by 100 at (500, 100), the frame filters resting at
  (500, -200).
\<close>

definition negative_padding_instance :: autoframing_instance where
  "negative_padding_instance =
     demo_instance\<lparr>frame_aspect_ratio := Fin 1,
       frame_padding := \<lparr>vx = Fin (- 100), vy = Fin (- 100)\<rparr>,
       frame_offset := \<lparr>vx = Fin 0, vy = Fin (- 300)\<rparr>,
       frame_pos_x := unit_filter (Fin 500), frame_pos_y := unit_filter (Fin (- 200)),
       tracked_elements :=
         [(1, \<lparr>pos = \<lparr>vx = Fin 500, vy = Fin 100\<rparr>, size_el = \<lparr>vx = Fin 100, vy = Fin 100\<rparr>,
               vel = \<lparr>vx = Fin 0, vy = Fin 0\<rparr>, age = Fin 0, confidence = Fin 1\<rparr>)]\<rparr>"

section \<open>Containment of the final frame\<close>














section \<open>Ageing and eviction\<close>

lemma erase_at_update:
  assumes "i < length xs"
  shows "erase_at i (xs[i := y]) = take i xs @ drop (Suc i) xs"
  using assms by (simp add: erase_at_def)

lemma map_erase_filter:
  "filter (\<lambda>kv. fst kv \<notin> A) (map_erase a m) = filter (\<lambda>kv. fst kv \<notin> insert a A) m"
  by (induction m) (auto simp: map_erase_def)

lemma age_loop_char:
  "age_loop th dt i els preds =
     (take i els @ filter (\<lambda>e. \<not> expired th e) (map (grow_age dt) (drop i els)),
      filter (\<lambda>kv. fst kv \<notin> fst ` {e \<in> set (map (grow_age dt) (drop i els)). expired th e}) preds)"
proof (induction th dt i els preds rule: age_loop.induct)
  case (1 th dt i els preds)
  show ?case
  proof (cases "i < length els")
    case False
    then show ?thesis by (simp add: age_loop.simps [of th dt i els preds])
  next
    case True
    define x where "x = grow_age dt (els ! i)"
    have x: "x = (fst (els ! i), (snd (els ! i))\<lparr>age := fadd (age (snd (els ! i))) dt\<rparr>)"
      by (simp add: x_def grow_age_def)
    have dr: "drop i els = els ! i # drop (Suc i) els"
      using True by (simp add: Cons_nth_drop_Suc)
    show ?thesis
    proof (cases "expired th x")
      case ex: True
      let ?els = "take i els @ drop (Suc i) els"
      have len: "length (take i els) = i" using True by simp
      have step: "age_loop th dt i els preds = age_loop th dt i ?els (map_erase (fst x) preds)"
        using True ex
        by (subst age_loop.simps) (simp add: x Let_def expired_def erase_at_def)
      have ih: "age_loop th dt i ?els (map_erase (fst x) preds) =
         (take i ?els @ filter (\<lambda>e. \<not> expired th e) (map (grow_age dt) (drop i ?els)),
          filter (\<lambda>kv. fst kv \<notin> fst ` {e \<in> set (map (grow_age dt) (drop i ?els)). expired th e})
            (map_erase (fst x) preds))"
      proof (cases "i = 0")
        case True
        show ?thesis
          using "1.IH"(1) [OF \<open>i < length els\<close> refl refl refl _ True] ex True
          by (simp add: x expired_def erase_at_def)
      next
        case False
        show ?thesis
          using "1.IH"(2) [OF \<open>i < length els\<close> refl refl refl _ False] ex \<open>i < length els\<close>
          by (simp add: x expired_def erase_at_def)
      qed
      have d: "drop i ?els = drop (Suc i) els" using len by simp
      have t: "take i ?els = take i els" using len by simp
      have set_eq: "insert (fst x) (fst ` {e \<in> set (map (grow_age dt) (drop (Suc i) els)). expired th e})
          = fst ` {e \<in> set (map (grow_age dt) (drop i els)). expired th e}"
        using ex by (auto simp: dr x_def)
      show ?thesis
        unfolding step ih d t map_erase_filter set_eq
        using ex by (simp add: dr x_def)
    next
      case nex: False
      let ?els = "els[i := x]"
      have step: "age_loop th dt i els preds = age_loop th dt (Suc i) ?els preds"
        using True nex
        by (subst age_loop.simps) (simp add: x Let_def expired_def)
      have ih: "age_loop th dt (Suc i) ?els preds =
         (take (Suc i) ?els @ filter (\<lambda>e. \<not> expired th e) (map (grow_age dt) (drop (Suc i) ?els)),
          filter (\<lambda>kv. fst kv \<notin> fst ` {e \<in> set (map (grow_age dt) (drop (Suc i) ?els)). expired th e}) preds)"
        using "1.IH"(3) [OF \<open>i < length els\<close> refl refl refl] nex
        by (simp add: x expired_def)
      have t: "take (Suc i) ?els = take i els @ [x]"
        using True by (simp add: take_Suc_conv_app_nth)
      have set_eq: "fst ` {e \<in> set (map (grow_age dt) (drop (Suc i) els)). expired th e}
          = fst ` {e \<in> set (map (grow_age dt) (drop i els)). expired th e}"
        using nex by (auto simp: dr x_def)
      show ?thesis
        unfolding step ih t
        using nex set_eq by (simp add: dr x_def)
    qed
  qed
qed


lemma map_find_insert:
  "map_find k' (map_insert_or_assign k v m) = (if k' = k then Some v else map_find k' m)"
  by (induction m) (auto simp: map_find_def)

lemma map_keys_insert: "map_keys (map_insert_or_assign k v m) = insert k (map_keys m)"
  by (induction m) (auto simp: map_keys_def)

lemma map_keys_update_predicted:
  "map_keys (update_predicted s dt els m) = map_keys m \<union> addrs els"
  by (induction els arbitrary: m) (auto simp: Let_def map_keys_insert addrs_def)

lemma map_find_update_predicted_other:
  "a \<notin> addrs els \<Longrightarrow> map_find a (update_predicted s dt els m) = map_find a m"
  by (induction els arbitrary: m) (auto simp: Let_def map_find_insert addrs_def)

lemma map_find_update_predicted:
  assumes "distinct (map fst els)" "(a, t) \<in> set els"
  shows "map_find a (update_predicted s dt els m) =
     Some (update_pred s dt t (case map_find a m of None \<Rightarrow> new_pred s t | Some p \<Rightarrow> p))"
  using assms
proof (induction els arbitrary: m)
  case Nil
  then show ?case by simp
next
  case (Cons e els)
  show ?case
  proof (cases "e = (a, t)")
    case True
    then have "a \<notin> addrs els" using Cons.prems(1) by (auto simp: addrs_def)
    then show ?thesis
      using True
      by (simp add: Let_def map_find_update_predicted_other map_find_insert split: option.splits)
  next
    case False
    then have in_els: "(a, t) \<in> set els" using Cons.prems(2) by simp
    then have "fst e \<noteq> a" using Cons.prems(1) by (auto simp: image_iff)
    then show ?thesis
      using Cons.IH [OF _ in_els] Cons.prems(1) by (simp add: Let_def map_find_insert)
  qed
qed

lemma find_final_frame_elements:
  "tracked_elements (find_final_frame s) = tracked_elements s"
  "predicted_elements (find_final_frame s) = predicted_elements s"
  by (simp_all add: find_final_frame_def Let_def)

lemma tracking_tick_tracked:
  "tracked_elements (tracking_tick dt s) =
     filter (\<lambda>e. \<not> expired (age_threshold (track_frequency s)) e)
       (map (grow_age dt) (tracked_elements s))"
  by (simp add: tracking_tick_def update_elements_def Let_def find_final_frame_elements
      age_loop_char)

lemma tracking_tick_predicted:
  "predicted_elements (tracking_tick dt s) =
     update_predicted s dt (tracked_elements (tracking_tick dt s))
       (snd (age_loop (age_threshold (track_frequency s)) dt 0 (tracked_elements s)
          (predicted_elements s)))"
  by (simp add: tracking_tick_def update_elements_def Let_def find_final_frame_elements)

lemma map_keys_filter: "map_keys (filter (\<lambda>kv. fst kv \<notin> A) m) = map_keys m - A"
  by (auto simp: map_keys_def)

lemma map_find_filter_other:
  "a \<notin> A \<Longrightarrow> map_find a (filter (\<lambda>kv. fst kv \<notin> A) m) = map_find a m"
  by (induction m) (auto simp: map_find_def)






section \<open>Motion prediction\<close>

lemma survivor_origin:
  assumes "(a, t) \<in> set (tracked_elements (tracking_tick dt s))"
  shows "\<exists>e \<in> set (tracked_elements s). grow_age dt e = (a, t) \<and>
           \<not> expired (age_threshold (track_frequency s)) (a, t)"
  using assms unfolding tracking_tick_tracked by auto

lemma tracking_tick_distinct:
  assumes "distinct (map fst (tracked_elements s))"
  shows "distinct (map fst (tracked_elements (tracking_tick dt s)))"
proof -
  have "fst \<circ> grow_age dt = fst"
    by (simp add: fun_eq_iff grow_age_def)
  then have "distinct (map fst (map (grow_age dt) (tracked_elements s)))"
    using assms by simp
  then show ?thesis
    unfolding tracking_tick_tracked by (rule distinct_map_filter)
qed

lemma survivor_companion:
  assumes "distinct (map fst (tracked_elements s))"
    and "(a, t) \<in> set (tracked_elements (tracking_tick dt s))"
  shows "map_find a (predicted_elements (tracking_tick dt s)) =
     Some (update_pred s dt t
       (case map_find a (predicted_elements s) of None \<Rightarrow> new_pred s t | Some p \<Rightarrow> p))"
proof -
  let ?th = "age_threshold (track_frequency s)"
  let ?els = "tracked_elements s"
  let ?ev = "fst ` {e \<in> set (map (grow_age dt) ?els). expired ?th e}"
  obtain e where e: "e \<in> set ?els" "grow_age dt e = (a, t)" "\<not> expired ?th (a, t)"
    using survivor_origin [OF assms(2)] by blast
  have uniq: "fst x = fst y \<Longrightarrow> x = y" if "x \<in> set ?els" "y \<in> set ?els" for x y
    using assms(1) that by (meson distinct_map inj_onD)
  have "a \<notin> ?ev"
  proof
    assume "a \<in> ?ev"
    then obtain e' where e': "e' \<in> set ?els" "fst e' = a" "expired ?th (grow_age dt e')"
      by (auto simp: grow_age_def)
    moreover have "fst e = a" using e(2) by (auto simp: grow_age_def)
    ultimately have "e' = e" using uniq e(1) by simp
    then show False using e'(3) e(2,3) by simp
  qed
  then have keep: "map_find a (snd (age_loop ?th dt 0 ?els (predicted_elements s)))
      = map_find a (predicted_elements s)"
    by (simp add: age_loop_char map_find_filter_other)
  show ?thesis
    unfolding tracking_tick_predicted
    using map_find_update_predicted [OF tracking_tick_distinct [OF assms(1)] assms(2)]
    by (simp add: keep)
qed

text \<open>
  C4: for every tracked element that a tick has processed (its entry \<open>(a, t)\<close> after the
  tick, with the age the tick gave it), the companion of the element holds as
  motion-predicted position, per axis, the base plus \<open>velocity * _motion_prediction * dt\<close>,
  where the base is the previous motion-predicted position of the companion when the age
  is greater than \<open>dt\<close> and the position of the element otherwise; the two position
  filters of the companion are the previous filters after one step on that stored value.
\<close>

theorem motion_prediction_stored:
  assumes "distinct (map fst (tracked_elements s))"
    and "(a, t) \<in> set (tracked_elements (tracking_tick dt s))"
  shows "\<exists>p. map_find a (predicted_elements (tracking_tick dt s)) = Some p \<and>
           mp_pos p =
             (let prior = (case map_find a (predicted_elements s) of
                             None \<Rightarrow> new_pred s t | Some q \<Rightarrow> q);
                  base = (if fgt (age t) dt then mp_pos prior else pos t)
              in \<lparr>vx = fadd (vx base) (fmul (fmul (vx (vel t)) (motion_prediction s)) dt),
                  vy = fadd (vy base) (fmul (fmul (vy (vel t)) (motion_prediction s)) dt)\<rparr>) \<and>
           filter_pos_x p =
             kalman_filter (filter_pos_x (case map_find a (predicted_elements s) of
                                            None \<Rightarrow> new_pred s t | Some q \<Rightarrow> q)) (vx (mp_pos p)) \<and>
           filter_pos_y p =
             kalman_filter (filter_pos_y (case map_find a (predicted_elements s) of
                                            None \<Rightarrow> new_pred s t | Some q \<Rightarrow> q)) (vy (mp_pos p))"
  unfolding survivor_companion [OF assms]
  by (simp add: update_pred_def motion_predicted_def Let_def vec2_add_def vec2_mulf_def)

theorem motion_prediction_stored_witness:
  "distinct (map fst (tracked_elements (demo_instance\<lparr>tracked_elements := [(1, track_a)]\<rparr>))) \<and>
   (1, track_a\<lparr>age := Fin (1 / 30)\<rparr>) \<in> set (tracked_elements
      (tracking_tick (Fin (1 / 30)) (demo_instance\<lparr>tracked_elements := [(1, track_a)]\<rparr>))) \<and>
   (\<exists>p. map_find 1 (predicted_elements
      (tracking_tick (Fin (1 / 30)) (demo_instance\<lparr>tracked_elements := [(1, track_a)]\<rparr>))) = Some p \<and>
      mp_pos p = \<lparr>vx = Fin (501 / 5), vy = Fin 100\<rparr>)"
proof -
  let ?s = "demo_instance\<lparr>tracked_elements := [(1, track_a)]\<rparr>"
  have d: "distinct (map fst (tracked_elements ?s))" by simp
  have m: "(1, track_a\<lparr>age := Fin (1 / 30)\<rparr>) \<in> set (tracked_elements (tracking_tick (Fin (1 / 30)) ?s))"
    by (simp add: tracking_tick_tracked demo_instance_def track_a_def grow_age_def expired_def
        age_threshold_def fge_def fsub_def)
  obtain p where p: "map_find 1 (predicted_elements (tracking_tick (Fin (1 / 30)) ?s)) = Some p"
    "mp_pos p =
       (let prior = (case map_find 1 (predicted_elements ?s) of
                       None \<Rightarrow> new_pred ?s (track_a\<lparr>age := Fin (1 / 30)\<rparr>) | Some q \<Rightarrow> q);
            base = (if fgt (age (track_a\<lparr>age := Fin (1 / 30)\<rparr>)) (Fin (1 / 30)) then mp_pos prior
                    else pos (track_a\<lparr>age := Fin (1 / 30)\<rparr>))
        in \<lparr>vx = fadd (vx base) (fmul (fmul (vx (vel (track_a\<lparr>age := Fin (1 / 30)\<rparr>))) (motion_prediction ?s)) (Fin (1 / 30))),
            vy = fadd (vy base) (fmul (fmul (vy (vel (track_a\<lparr>age := Fin (1 / 30)\<rparr>))) (motion_prediction ?s)) (Fin (1 / 30)))\<rparr>)"
    using motion_prediction_stored [OF d m] by blast
  have "mp_pos p = \<lparr>vx = Fin (501 / 5), vy = Fin 100\<rparr>"
    unfolding p(2) by (simp add: demo_instance_def track_a_def fgt_def Let_def)
  then show ?thesis using d m p(1) by blast
qed

section \<open>Aspect correction of the padded box\<close>





section \<open>The frame in solo mode\<close>

lemma update_elements_tracked:
  "tracked_elements (update_elements dt s) = tracked_elements (tracking_tick dt s)"
  by (simp add: tracking_tick_def Let_def find_final_frame_elements)

lemma update_elements_predicted:
  "predicted_elements (update_elements dt s) = predicted_elements (tracking_tick dt s)"
  by (simp add: tracking_tick_def Let_def find_final_frame_elements)

lemma age_loop_exec:
  "age_loop th dt 0 els preds =
     (filter (\<lambda>e. \<not> expired th e) (map (grow_age dt) els),
      filter (\<lambda>kv. fst kv \<notin> set (map fst (filter (expired th) (map (grow_age dt) els)))) preds)"
proof -
  have "fst ` {e \<in> set (map (grow_age dt) els). expired th e}
      = set (map fst (filter (expired th) (map (grow_age dt) els)))"
    by auto
  then show ?thesis by (simp add: age_loop_char)
qed



lemma sorted_insert_or_assign:
  "sorted_wrt (<) (map fst m) \<Longrightarrow> sorted_wrt (<) (map fst (map_insert_or_assign k v m))"
proof (induction m)
  case Nil
  then show ?case by simp
next
  case (Cons kv m)
  have keys: "fst ` set (map_insert_or_assign k v m) = insert k (fst ` set m)"
    using map_keys_insert [of k v m] by (simp add: map_keys_def)
  show ?case
  proof (cases "k < fst kv")
    case True
    then show ?thesis using Cons.prems by auto
  next
    case False
    show ?thesis
    proof (cases "k = fst kv")
      case True
      then show ?thesis using Cons.prems by simp
    next
      case ne: False
      then have "fst kv < k" using False by simp
      then show ?thesis
        using Cons False ne by (auto simp: keys)
    qed
  qed
qed

lemma sorted_update_predicted:
  "sorted_wrt (<) (map fst m) \<Longrightarrow> sorted_wrt (<) (map fst (update_predicted s dt els m))"
  by (induction els arbitrary: m) (simp_all add: Let_def sorted_insert_or_assign)

lemma sorted_keys_filter:
  "sorted_wrt (<) (map fst (m :: predicted_map)) \<Longrightarrow> sorted_wrt (<) (map fst (filter P m))"
  by (induction m) auto

lemma update_elements_sorted:
  assumes "sorted_wrt (<) (map fst (predicted_elements s))"
  shows "sorted_wrt (<) (map fst (predicted_elements (update_elements dt s)))"
  using assms
  by (simp add: update_elements_def Let_def age_loop_char sorted_update_predicted
      sorted_keys_filter)




section \<open>Companions of the tracked elements\<close>

lemma match_track_addr: "fst (fst (match_track max_dst e boxes)) = fst e"
  by (simp add: match_track_def Let_def split: option.splits)

lemma merge_tracks_addrs: "map fst (fst (merge_tracks max_dst els boxes)) = map fst els"
  by (induction els arbitrary: boxes) (simp_all add: Let_def match_track_addr)

lemma process_predicted:
  "predicted_elements (nvar_facedetection_process alloc dets s) = predicted_elements s"
  by (simp add: nvar_facedetection_process_def Let_def)

lemma merge_tracks_addr_set: "addrs (fst (merge_tracks max_dst els boxes)) = addrs els"
proof -
  have "set (map fst (fst (merge_tracks max_dst els boxes))) = set (map fst els)"
    by (simp only: merge_tracks_addrs)
  then show ?thesis by (simp add: addrs_def)
qed

lemma process_tracked_addrs:
  "addrs (tracked_elements s) \<subseteq> addrs (tracked_elements (nvar_facedetection_process alloc dets s))"
proof (cases "nvidia_fx s \<and> length dets > 0")
  case True
  let ?r = "merge_tracks (max_distance (size_wh s) (track_frequency s)) (tracked_elements s)
              (collect_boxes alloc 0 dets)"
  have "tracked_elements (nvar_facedetection_process alloc dets s) = fst ?r @ snd ?r"
    using True by (simp add: nvar_facedetection_process_def Let_def)
  then have "addrs (tracked_elements (nvar_facedetection_process alloc dets s))
      = addrs (fst ?r) \<union> addrs (snd ?r)"
    by (simp add: addrs_def image_Un)
  then show ?thesis by (simp add: merge_tracks_addr_set)
next
  case False
  then show ?thesis by (auto simp: nvar_facedetection_process_def)
qed

lemma tracking_tick_keys:
  "map_keys (predicted_elements (tracking_tick dt s)) =
     (map_keys (predicted_elements s) -
        fst ` {e \<in> set (map (grow_age dt) (tracked_elements s)).
                 expired (age_threshold (track_frequency s)) e})
     \<union> addrs (tracked_elements (tracking_tick dt s))"
  by (simp add: tracking_tick_predicted map_keys_update_predicted age_loop_char map_keys_filter)

text \<open>
  C7, as stated: at every observation point the keys of the predicted map are the live
  tracked elements. A detection pass appends the unmatched detections to the list and
  never writes the map: from the instance without elements and one detection of
  confidence 0.9, the pass leaves one tracked element and an empty map.
\<close>

theorem companions_counterexample:
  "addrs (tracked_elements (nvar_facedetection_process Suc
      [(\<lparr>v4x = Fin 80, v4y = Fin 80, v4z = Fin 40, v4w = Fin 40\<rparr>, Fin (9 / 10))]
      (demo_instance\<lparr>nvidia_fx := True\<rparr>))) = {1} \<and>
   map_keys (predicted_elements (nvar_facedetection_process Suc
      [(\<lparr>v4x = Fin 80, v4y = Fin 80, v4z = Fin 40, v4w = Fin 40\<rparr>, Fin (9 / 10))]
      (demo_instance\<lparr>nvidia_fx := True\<rparr>))) = {}"
  by (simp add: nvar_facedetection_process_def Let_def demo_instance_def addrs_def map_keys_def)

text \<open>
  C7, amended: when every key of the predicted map is a tracked element before, then after
  a tick the keys of the map are exactly the tracked elements (the companion of a new
  element is made by the first tick that finds it in the list, the companion of an
  evicted one is erased with it), and a detection pass leaves the map as it is and only
  extends the list, so that between a pass and the next tick every key is still a
  tracked element, though not every tracked element has a companion yet.
\<close>

theorem companions_after_tick:
  assumes "map_keys (predicted_elements s) \<subseteq> addrs (tracked_elements s)"
  shows "map_keys (predicted_elements (tracking_tick dt s)) =
           addrs (tracked_elements (tracking_tick dt s)) \<and>
         predicted_elements (nvar_facedetection_process alloc dets s) = predicted_elements s \<and>
         map_keys (predicted_elements (nvar_facedetection_process alloc dets s)) \<subseteq>
           addrs (tracked_elements (nvar_facedetection_process alloc dets s))"
proof -
  let ?th = "age_threshold (track_frequency s)"
  let ?ev = "fst ` {e \<in> set (map (grow_age dt) (tracked_elements s)). expired ?th e}"
  have "k \<in> addrs (tracked_elements (tracking_tick dt s))"
    if k: "k \<in> map_keys (predicted_elements s)" "k \<notin> ?ev" for k
  proof -
    obtain e where e: "e \<in> set (tracked_elements s)" "fst e = k"
      using k(1) assms by (auto simp: addrs_def)
    have g: "grow_age dt e \<in> set (map (grow_age dt) (tracked_elements s))"
      using e(1) by simp
    have fg: "fst (grow_age dt e) = k" using e(2) by (simp add: grow_age_def)
    have "\<not> expired ?th (grow_age dt e)"
    proof
      assume "expired ?th (grow_age dt e)"
      then have "grow_age dt e \<in> {e \<in> set (map (grow_age dt) (tracked_elements s)). expired ?th e}"
        using g by simp
      then have "fst (grow_age dt e) \<in> ?ev" by (rule imageI)
      then show False using fg k(2) by simp
    qed
    then have "grow_age dt e \<in> set (tracked_elements (tracking_tick dt s))"
      unfolding tracking_tick_tracked using g by simp
    then have "fst (grow_age dt e) \<in> addrs (tracked_elements (tracking_tick dt s))"
      unfolding addrs_def by (rule imageI)
    then show ?thesis using fg by simp
  qed
  then have a: "map_keys (predicted_elements (tracking_tick dt s)) =
           addrs (tracked_elements (tracking_tick dt s))"
    unfolding tracking_tick_keys by blast
  have b: "map_keys (predicted_elements (nvar_facedetection_process alloc dets s)) \<subseteq>
           addrs (tracked_elements (nvar_facedetection_process alloc dets s))"
    unfolding process_predicted using assms process_tracked_addrs by blast
  show ?thesis using a b process_predicted by simp
qed

theorem companions_after_tick_witness:
  "map_keys (predicted_elements (demo_instance\<lparr>tracked_elements := [(1, track_a)]\<rparr>)) \<subseteq>
     addrs (tracked_elements (demo_instance\<lparr>tracked_elements := [(1, track_a)]\<rparr>)) \<and>
   map_keys (predicted_elements (tracking_tick (Fin (1 / 30))
       (demo_instance\<lparr>tracked_elements := [(1, track_a)]\<rparr>))) =
     addrs (tracked_elements (tracking_tick (Fin (1 / 30))
       (demo_instance\<lparr>tracked_elements := [(1, track_a)]\<rparr>)))"
  using companions_after_tick [of "demo_instance\<lparr>tracked_elements := [(1, track_a)]\<rparr>" "Fin (1 / 30)"]
  by (simp add: demo_instance_def map_keys_def)

section \<open>Association of detections and tracked elements\<close>














section \<open>The tracking frequency setting\<close>

lemma scan_20: "scan_digits ''20 Hz'' = Some (Fin 20)"
  by (simp add: scan_digits_def is_digit_def digit_val_def)

lemma scan_2s: "scan_digits ''2 s'' = Some (Fin 2)"
  by (simp add: scan_digits_def is_digit_def digit_val_def)

lemma scan_fast: "scan_digits ''fast'' = None"
  by (simp add: scan_digits_def is_digit_def digit_val_def)

text \<open>
  C8: the frequency text in \<open>update\<close>. A text \<open><N> Hz\<close> whose number is scanned as \<open>v\<close>
  gives the period \<open>1 / v\<close>, a text \<open><N> s\<close> gives \<open>v\<close>, a text that does not scan as a
  number gives the number 0, the initial value of the local variable, and an absent text
  keeps the previous period; in every case \<open>update\<close> returns an instance, not an error.
\<close>

theorem frequency_text:
  "(scan ext (n @ '' Hz'') = Some v \<and> CHR ''s'' \<notin> set n \<longrightarrow>
      read_frequency ext (Some (n @ '' Hz'')) old = fdiv (Fin 1) v) \<and>
   (scan ext (n @ '' s'') = Some v \<longrightarrow> read_frequency ext (Some (n @ '' s'')) old = v) \<and>
   (scan ext t = None \<longrightarrow> read_frequency ext (Some t) old = Fin 0) \<and>
   read_frequency ext None old = old \<and>
   track_frequency (update ext data s) =
     read_frequency ext (Tracking_Frequency data) (track_frequency s)"
  by (simp add: read_frequency_def update_def Let_def)

theorem frequency_text_witness:
  "scan demo_externals (''20'' @ '' Hz'') = Some (Fin 20) \<and> CHR ''s'' \<notin> set ''20'' \<and>
   read_frequency demo_externals (Some (''20'' @ '' Hz'')) (Fin 1) = Fin (1 / 20) \<and>
   scan demo_externals (''2'' @ '' s'') = Some (Fin 2) \<and>
   read_frequency demo_externals (Some (''2'' @ '' s'')) (Fin 1) = Fin 2 \<and>
   scan demo_externals ''fast'' = None \<and>
   read_frequency demo_externals (Some ''fast'') (Fin 1) = Fin 0"
  using frequency_text [of demo_externals "''20''" "Fin 20" "Fin 1" "''fast''"]
    frequency_text [of demo_externals "''2''" "Fin 2" "Fin 1" "''fast''"]
  by (simp add: demo_externals_def scan_20 scan_2s scan_fast)

section \<open>Failure of a provider switch\<close>

lemma update_keeps_provider:
  "provider (nvar_facedetection_update b s) = provider s"
  "log (nvar_facedetection_update b s) = log s"
  by (simp_all add: nvar_facedetection_update_def split: tracking_mode.splits)



section \<open>Regeneration of the filters\<close>

lemma kalman_get_construct: "kalman_get (construct pnc mnc eec v) = v"
  by (simp add: kalman_get_def construct_def)

lemma kalman_get_regenerate: "kalman_get (regenerate pnc mnc k) = kalman_get k"
  by (simp add: regenerate_def kalman_get_construct)

lemma update_predicted_elements:
  "predicted_elements (update ext data s) =
     map (regenerate_pred (motion_smoothing_kalman_pnc (update ext data s))
            (motion_smoothing_kalman_mnc (update ext data s))) (predicted_elements s)"
  by (simp add: update_def Let_def)

lemma update_frame_filters:
  "frame_pos_x (update ext data s) =
     regenerate (frame_stability_kalman (update ext data s)) (Fin 1) (frame_pos_x s)"
  "frame_pos_y (update ext data s) =
     regenerate (frame_stability_kalman (update ext data s)) (Fin 1) (frame_pos_y s)"
  "frame_size_x (update ext data s) =
     regenerate (frame_stability_kalman (update ext data s)) (Fin 1) (frame_size_x s)"
  "frame_size_y (update ext data s) =
     regenerate (frame_stability_kalman (update ext data s)) (Fin 1) (frame_size_y s)"
  by (simp_all add: update_def Let_def)

text \<open>
  C10: \<open>update\<close> regenerates the four filters of every predicted element, entry by
  entry under the same keys, and the four frame filters. Each new filter is constructed
  with the new noise parameters (\<open>pnc\<close> and \<open>mnc\<close> of the motion smoothing for the
  elements, the stability value and 1 for the frame), the error covariance
  \<open>ST_KALMAN_EEC\<close>, and the value \<open>get()\<close> of the filter it replaces, so \<open>get()\<close> of
  every filter is the same before and after.
\<close>

theorem update_keeps_estimates:
  "length (predicted_elements (update ext data s)) = length (predicted_elements s) \<and>
   (\<forall>i < length (predicted_elements s).
      fst (predicted_elements (update ext data s) ! i) = fst (predicted_elements s ! i) \<and>
      filter_pos_x (snd (predicted_elements (update ext data s) ! i)) =
        construct (motion_smoothing_kalman_pnc (update ext data s))
          (motion_smoothing_kalman_mnc (update ext data s)) ST_KALMAN_EEC
          (kalman_get (filter_pos_x (snd (predicted_elements s ! i)))) \<and>
      filter_pos_y (snd (predicted_elements (update ext data s) ! i)) =
        construct (motion_smoothing_kalman_pnc (update ext data s))
          (motion_smoothing_kalman_mnc (update ext data s)) ST_KALMAN_EEC
          (kalman_get (filter_pos_y (snd (predicted_elements s ! i)))) \<and>
      filter_size_x (snd (predicted_elements (update ext data s) ! i)) =
        construct (motion_smoothing_kalman_pnc (update ext data s))
          (motion_smoothing_kalman_mnc (update ext data s)) ST_KALMAN_EEC
          (kalman_get (filter_size_x (snd (predicted_elements s ! i)))) \<and>
      filter_size_y (snd (predicted_elements (update ext data s) ! i)) =
        construct (motion_smoothing_kalman_pnc (update ext data s))
          (motion_smoothing_kalman_mnc (update ext data s)) ST_KALMAN_EEC
          (kalman_get (filter_size_y (snd (predicted_elements s ! i)))) \<and>
      kalman_get (filter_pos_x (snd (predicted_elements (update ext data s) ! i))) =
        kalman_get (filter_pos_x (snd (predicted_elements s ! i))) \<and>
      kalman_get (filter_pos_y (snd (predicted_elements (update ext data s) ! i))) =
        kalman_get (filter_pos_y (snd (predicted_elements s ! i))) \<and>
      kalman_get (filter_size_x (snd (predicted_elements (update ext data s) ! i))) =
        kalman_get (filter_size_x (snd (predicted_elements s ! i))) \<and>
      kalman_get (filter_size_y (snd (predicted_elements (update ext data s) ! i))) =
        kalman_get (filter_size_y (snd (predicted_elements s ! i)))) \<and>
   frame_pos_x (update ext data s) =
     construct (frame_stability_kalman (update ext data s)) (Fin 1) ST_KALMAN_EEC
       (kalman_get (frame_pos_x s)) \<and>
   frame_pos_y (update ext data s) =
     construct (frame_stability_kalman (update ext data s)) (Fin 1) ST_KALMAN_EEC
       (kalman_get (frame_pos_y s)) \<and>
   frame_size_x (update ext data s) =
     construct (frame_stability_kalman (update ext data s)) (Fin 1) ST_KALMAN_EEC
       (kalman_get (frame_size_x s)) \<and>
   frame_size_y (update ext data s) =
     construct (frame_stability_kalman (update ext data s)) (Fin 1) ST_KALMAN_EEC
       (kalman_get (frame_size_y s)) \<and>
   kalman_get (frame_pos_x (update ext data s)) = kalman_get (frame_pos_x s) \<and>
   kalman_get (frame_pos_y (update ext data s)) = kalman_get (frame_pos_y s) \<and>
   kalman_get (frame_size_x (update ext data s)) = kalman_get (frame_size_x s) \<and>
   kalman_get (frame_size_y (update ext data s)) = kalman_get (frame_size_y s)"
proof -
  have len: "length (predicted_elements (update ext data s)) = length (predicted_elements s)"
    by (simp add: update_predicted_elements)
  have nth: "predicted_elements (update ext data s) ! i =
      regenerate_pred (motion_smoothing_kalman_pnc (update ext data s))
        (motion_smoothing_kalman_mnc (update ext data s)) (predicted_elements s ! i)"
    if "i < length (predicted_elements s)" for i
    using that by (subst update_predicted_elements) simp
  have entries: "\<forall>i < length (predicted_elements s).
      fst (predicted_elements (update ext data s) ! i) = fst (predicted_elements s ! i) \<and>
      filter_pos_x (snd (predicted_elements (update ext data s) ! i)) =
        construct (motion_smoothing_kalman_pnc (update ext data s))
          (motion_smoothing_kalman_mnc (update ext data s)) ST_KALMAN_EEC
          (kalman_get (filter_pos_x (snd (predicted_elements s ! i)))) \<and>
      filter_pos_y (snd (predicted_elements (update ext data s) ! i)) =
        construct (motion_smoothing_kalman_pnc (update ext data s))
          (motion_smoothing_kalman_mnc (update ext data s)) ST_KALMAN_EEC
          (kalman_get (filter_pos_y (snd (predicted_elements s ! i)))) \<and>
      filter_size_x (snd (predicted_elements (update ext data s) ! i)) =
        construct (motion_smoothing_kalman_pnc (update ext data s))
          (motion_smoothing_kalman_mnc (update ext data s)) ST_KALMAN_EEC
          (kalman_get (filter_size_x (snd (predicted_elements s ! i)))) \<and>
      filter_size_y (snd (predicted_elements (update ext data s) ! i)) =
        construct (motion_smoothing_kalman_pnc (update ext data s))
          (motion_smoothing_kalman_mnc (update ext data s)) ST_KALMAN_EEC
          (kalman_get (filter_size_y (snd (predicted_elements s ! i)))) \<and>
      kalman_get (filter_pos_x (snd (predicted_elements (update ext data s) ! i))) =
        kalman_get (filter_pos_x (snd (predicted_elements s ! i))) \<and>
      kalman_get (filter_pos_y (snd (predicted_elements (update ext data s) ! i))) =
        kalman_get (filter_pos_y (snd (predicted_elements s ! i))) \<and>
      kalman_get (filter_size_x (snd (predicted_elements (update ext data s) ! i))) =
        kalman_get (filter_size_x (snd (predicted_elements s ! i))) \<and>
      kalman_get (filter_size_y (snd (predicted_elements (update ext data s) ! i))) =
        kalman_get (filter_size_y (snd (predicted_elements s ! i)))"
    by (simp add: nth regenerate_pred_def regenerate_def kalman_get_construct)
  show ?thesis
    using len entries
    by (simp add: update_frame_filters regenerate_def kalman_get_construct)
qed

theorem update_keeps_estimates_witness:
  "(0 :: nat) < length (predicted_elements
      (demo_instance\<lparr>predicted_elements := [(1, new_pred demo_instance track_a)]\<rparr>)) \<and>
   kalman_get (filter_pos_x (snd (predicted_elements (update demo_externals demo_data
      (demo_instance\<lparr>predicted_elements := [(1, new_pred demo_instance track_a)]\<rparr>)) ! 0))) = Fin 100 \<and>
   kalman_get (frame_pos_x (update demo_externals demo_data
      (demo_instance\<lparr>predicted_elements := [(1, new_pred demo_instance track_a)]\<rparr>))) = Fin 1"
  using update_keeps_estimates [of demo_externals demo_data
      "demo_instance\<lparr>predicted_elements := [(1, new_pred demo_instance track_a)]\<rparr>"]
  by (simp add: demo_instance_def new_pred_def track_a_def kalman_get_construct unit_filter_def)

section \<open>A tick that hands a negative size to the correction\<close>

text \<open>
  The candidate of the counterexample to the containment is what the first blocks of a
  tick compute in \<open>SOLO\<close> mode from a padding of -100 pixels: the padded and aspected
  size of the element is -100 by -100, its offset position (500, -200).
\<close>

lemma negative_candidate_reached:
  "frame_pos (find_final_frame (update_elements (Fin (1 / 30)) negative_padding_instance))
     = \<lparr>vx = Fin 500, vy = Fin (- 200)\<rparr> \<and>
   frame_size (find_final_frame (update_elements (Fin (1 / 30)) negative_padding_instance))
     = \<lparr>vx = Fin (- 100), vy = Fin (- 100)\<rparr> \<and>
   frame_aspect_ratio (find_final_frame (update_elements (Fin (1 / 30)) negative_padding_instance))
     = Fin 1 \<and>
   size_wh (find_final_frame (update_elements (Fin (1 / 30)) negative_padding_instance))
     = (1920, 1080)"
proof -
  let ?s = negative_padding_instance
  have aged: "age_loop (age_threshold (track_frequency ?s)) (Fin (1 / 30)) 0
        (tracked_elements ?s) (predicted_elements ?s) =
     ([(1, \<lparr>pos = \<lparr>vx = Fin 500, vy = Fin 100\<rparr>, size_el = \<lparr>vx = Fin 100, vy = Fin 100\<rparr>,
               vel = \<lparr>vx = Fin 0, vy = Fin 0\<rparr>, age = Fin (1 / 30), confidence = Fin 1\<rparr>)], [])"
    by (simp add: age_loop_exec negative_padding_instance_def demo_instance_def grow_age_def
        expired_def age_threshold_def fge_def fsub_def)
  have preds: "map (\<lambda>kv. (offset_pos (snd kv), aspected_size (snd kv)))
     (predicted_elements (update_elements (Fin (1 / 30)) ?s))
     = [(\<lparr>vx = Fin 500, vy = Fin (- 200)\<rparr>, \<lparr>vx = Fin (- 100), vy = Fin (- 100)\<rparr>)]"
    unfolding update_elements_def Let_def aged
    by (simp add: map_find_def update_pred_def new_pred_def motion_predicted_def Let_def
        aspect_adjust_def fgt_def fge_def fsub_def kalman_filter_def kalman_get_def
        construct_def ST_KALMAN_EEC_def vec2_add_def vec2_mulf_def
        negative_padding_instance_def demo_instance_def)
  have ne: "predicted_elements (update_elements (Fin (1 / 30)) ?s) \<noteq> []"
    using preds by auto
  have "(\<lambda>kv. (offset_pos (snd kv), aspected_size (snd kv)))
          (last (predicted_elements (update_elements (Fin (1 / 30)) ?s)))
      = last (map (\<lambda>kv. (offset_pos (snd kv), aspected_size (snd kv)))
          (predicted_elements (update_elements (Fin (1 / 30)) ?s)))"
    using ne by (simp add: last_map)
  also have "\<dots> = (\<lparr>vx = Fin 500, vy = Fin (- 200)\<rparr>, \<lparr>vx = Fin (- 100), vy = Fin (- 100)\<rparr>)"
    unfolding preds by simp
  finally have l: "offset_pos (snd (last (predicted_elements (update_elements (Fin (1 / 30)) ?s))))
      = \<lparr>vx = Fin 500, vy = Fin (- 200)\<rparr>"
    "aspected_size (snd (last (predicted_elements (update_elements (Fin (1 / 30)) ?s))))
      = \<lparr>vx = Fin (- 100), vy = Fin (- 100)\<rparr>"
    by simp_all
  have fields: "track_mode (update_elements (Fin (1 / 30)) ?s) = SOLO"
    "frame_pos_x (update_elements (Fin (1 / 30)) ?s) = unit_filter (Fin 500)"
    "frame_pos_y (update_elements (Fin (1 / 30)) ?s) = unit_filter (Fin (- 200))"
    "frame_aspect_ratio (update_elements (Fin (1 / 30)) ?s) = Fin 1"
    "size_wh (update_elements (Fin (1 / 30)) ?s) = (1920, 1080)"
    by (simp_all add: update_elements_def Let_def negative_padding_instance_def demo_instance_def)
  show ?thesis
    using ne l fields
    by (simp add: find_final_frame_def Let_def unit_filter_def kalman_filter_def kalman_get_def
        construct_def ST_KALMAN_EEC_def vec2_set_def fsub_def)
qed

end
